theory Spec2Isabelle
  imports Complex_Main
begin

section \<open>Python values: exceptions, calendar dates, text\<close>

text \<open>
  The exceptions the modelled code can meet. A function that can raise returns
  \<open>py_error + 'a\<close>, with \<open>Inl\<close> for the raised exception.
\<close>

datatype py_error = ValueError | OverflowError | ZeroDivisionError | OperationalError | RaisedException

subsection \<open>The proleptic Gregorian calendar of \<open>datetime\<close>\<close>

text \<open>
  A \<open>datetime\<close> built by \<open>strptime\<close> from a date-only format has time 00:00, and the
  code only ever reads \<open>.days\<close> of a difference, \<open>.year\<close>, \<open>.weekday()\<close> or
  \<open>strftime('%Y-%m-%d')\<close>; so a datetime is modelled by its calendar date
  (year, month, day). For \<open>datetime.now()\<close>, whose time of day lies in [0, 24h), the
  \<open>.days\<close> of \<open>now - d\<close> is the difference of the two ordinals.
\<close>

type_synonym date = "int \<times> int \<times> int"

definition is_leap :: "int \<Rightarrow> bool" where
  "is_leap y = (y mod 4 = 0 \<and> (y mod 100 \<noteq> 0 \<or> y mod 400 = 0))"

definition days_in_month :: "int \<Rightarrow> int \<Rightarrow> int" where
  "days_in_month y m =
     (if m = 2 then (if is_leap y then 29 else 28)
      else if m = 4 \<or> m = 6 \<or> m = 9 \<or> m = 11 then 30 else 31)"

definition days_before_year :: "int \<Rightarrow> int" where
  "days_before_year y = (y - 1) * 365 + (y - 1) div 4 - (y - 1) div 100 + (y - 1) div 400"

definition days_before_month_tab :: "int \<Rightarrow> int" where
  "days_before_month_tab m =
     (if m \<le> 1 then 0 else if m = 2 then 31 else if m = 3 then 59 else if m = 4 then 90
      else if m = 5 then 120 else if m = 6 then 151 else if m = 7 then 181
      else if m = 8 then 212 else if m = 9 then 243 else if m = 10 then 273
      else if m = 11 then 304 else 334)"

definition days_before_month :: "int \<Rightarrow> int \<Rightarrow> int" where
  "days_before_month y m = days_before_month_tab m + (if m > 2 \<and> is_leap y then 1 else 0)"

definition ymd2ord :: "date \<Rightarrow> int" where
  "ymd2ord dt = (case dt of (y, m, d) \<Rightarrow> days_before_year y + days_before_month y m + d)"

text \<open>\<open>_ord2ymd\<close> of \<open>datetime\<close>, step by step (400-, 100-, 4- and 1-year cycles).\<close>

definition ord2ymd :: "int \<Rightarrow> date" where
  "ord2ymd n0 =
     (let n = n0 - 1;
          n400 = n div 146097; n = n mod 146097;
          n100 = n div 36524; n = n mod 36524;
          n4 = n div 1461; n = n mod 1461;
          n1 = n div 365; n = n mod 365;
          year = n400 * 400 + 1 + n100 * 100 + n4 * 4 + n1
      in if n1 = 4 \<or> n100 = 4 then (year - 1, 12, 31)
         else
           let leapyear = (n1 = 3 \<and> (n4 \<noteq> 24 \<or> n100 = 3));
               month = (n + 50) div 32;
               preceding = days_before_month_tab month + (if month > 2 \<and> leapyear then 1 else 0)
           in if preceding > n
              then let month' = month - 1;
                       preceding' = preceding -
                         ((if month' = 2 then 28
                           else if month' = 4 \<or> month' = 6 \<or> month' = 9 \<or> month' = 11 then 30
                           else 31)
                          + (if month' = 2 \<and> leapyear then 1 else 0))
                   in (year, month', n - preceding' + 1)
              else (year, month, n - preceding + 1))"

definition valid_date :: "date \<Rightarrow> bool" where
  "valid_date dt = (case dt of (y, m, d) \<Rightarrow>
     1 \<le> y \<and> y \<le> 9999 \<and> 1 \<le> m \<and> m \<le> 12 \<and> 1 \<le> d \<and> d \<le> days_in_month y m)"

definition max_ordinal :: int where
  "max_ordinal = 3652059"

text \<open>\<open>d + timedelta(days=n)\<close>: OverflowError outside 0001-01-01 .. 9999-12-31.\<close>

definition add_days :: "date \<Rightarrow> int \<Rightarrow> py_error + date" where
  "add_days dt n =
     (let o' = ymd2ord dt + n
      in if 1 \<le> o' \<and> o' \<le> max_ordinal then Inr (ord2ymd o') else Inl OverflowError)"

text \<open>\<open>(a - b).days\<close> for two dates.\<close>

definition days_between :: "date \<Rightarrow> date \<Rightarrow> int" where
  "days_between a b = ymd2ord a - ymd2ord b"

text \<open>\<open>date.weekday()\<close>: Monday is 0.\<close>

definition weekday :: "date \<Rightarrow> int" where
  "weekday dt = (ymd2ord dt + 6) mod 7"

text \<open>
  \<open>replace(year=y)\<close>: ValueError when the day does not exist in the new year
  (29 February) or the year is out of range.
\<close>

definition replace_year :: "date \<Rightarrow> int \<Rightarrow> py_error + date" where
  "replace_year dt y = (case dt of (_, m, d) \<Rightarrow>
     if valid_date (y, m, d) then Inr (y, m, d) else Inl ValueError)"

subsection \<open>Text\<close>

text \<open>
  Texts are lists of 8-bit characters. \<open>is_digit\<close> is the regular expression class
  \<open>\d\<close> on them, \<open>is_space\<close> the characters \<open>str.strip()\<close> removes.
\<close>

definition is_digit :: "char \<Rightarrow> bool" where
  "is_digit c = (48 \<le> (of_char c :: nat) \<and> (of_char c :: nat) \<le> 57)"

definition digit_val :: "char \<Rightarrow> int" where
  "digit_val c = int (of_char c) - 48"

definition is_space :: "char \<Rightarrow> bool" where
  "is_space c = (let n = (of_char c :: nat) in
     (9 \<le> n \<and> n \<le> 13) \<or> (28 \<le> n \<and> n \<le> 32) \<or> n = 133 \<or> n = 160)"

definition strip :: "string \<Rightarrow> string" where
  "strip s = rev (dropWhile is_space (rev (dropWhile is_space s)))"

fun digits_val :: "string \<Rightarrow> int \<Rightarrow> int" where
  "digits_val [] acc = acc"
| "digits_val (c # cs) acc = digits_val cs (acc * 10 + digit_val c)"

definition digit_char :: "int \<Rightarrow> char" where
  "digit_char n = char_of (nat (48 + n mod 10))"

definition pad2 :: "int \<Rightarrow> string" where
  "pad2 n = [digit_char (n div 10), digit_char n]"

definition pad4 :: "int \<Rightarrow> string" where
  "pad4 n = [digit_char (n div 1000), digit_char (n div 100), digit_char (n div 10), digit_char n]"

text \<open>
  \<open>strftime('%Y-%m-%d')\<close>, with the year written on four digits (as the C library of
  the program's platform does; every date the code formats after parsing has a year
  of at least 1000 in any case, see \<open>parse_date_flexible\<close>).
\<close>

definition strftime_ymd :: "date \<Rightarrow> string" where
  "strftime_ymd dt = (case dt of (y, m, d) \<Rightarrow> pad4 y @ ''-'' @ pad2 m @ ''-'' @ pad2 d)"

text \<open>Binary comparison of TEXT values, as SQLite's default collation does.\<close>

fun text_less :: "string \<Rightarrow> string \<Rightarrow> bool" where
  "text_less [] [] = False"
| "text_less [] (y # ys) = True"
| "text_less (x # xs) [] = False"
| "text_less (x # xs) (y # ys) =
     ((of_char x :: nat) < of_char y \<or> (x = y \<and> text_less xs ys))"

definition text_le :: "string \<Rightarrow> string \<Rightarrow> bool" where
  "text_le a b = (\<not> text_less b a)"

subsection \<open>Floating-point numbers\<close>

text \<open>
  A Python \<open>float\<close> is an IEEE 754 double: a finite value (a rational; \<open>Finite 0\<close> is
  \<open>0.0\<close>), the negative zero, an infinity or a NaN.
\<close>

datatype pyfloat = Finite rat | NegZero | PosInf | NegInf | NaN

text \<open>The number of binary digits of a positive integer.\<close>

function bit_length :: "int \<Rightarrow> int" where
  "bit_length n = (if n \<le> 0 then 0 else 1 + bit_length (n div 2))"
  by pat_completeness auto
termination by (relation "measure nat") auto

declare bit_length.simps [simp del]

definition pow2 :: "int \<Rightarrow> rat" where
  "pow2 k = (if 0 \<le> k then 2 ^ nat k else 1 / 2 ^ nat (- k))"

text \<open>For a positive \<open>x\<close>, the exponent \<open>e\<close> with \<open>2 ^ e \<le> x < 2 ^ (e + 1)\<close>.\<close>

definition floor_log2 :: "rat \<Rightarrow> int" where
  "floor_log2 x =
     (case quotient_of x of (p, q) \<Rightarrow>
        let e = bit_length p - bit_length q
        in if pow2 e \<le> x then e else e - 1)"

definition round_half_even :: "rat \<Rightarrow> int" where
  "round_half_even q =
     (let n = \<lfloor>q\<rfloor>; r = q - of_int n
      in if r < 1 / 2 then n else if 1 / 2 < r then n + 1 else if even n then n else n + 1)"

text \<open>
  The double nearest to a real result, ties to the even mantissa: 53 binary digits,
  exponents from \<open>-1022\<close> (below it the subnormal numbers, with the spacing
  \<open>2 ^ -1074\<close>) to 1023, an infinity beyond, a zero of the result's sign below.
\<close>

definition round_double :: "rat \<Rightarrow> pyfloat" where
  "round_double x =
     (if x = 0 then Finite 0
      else
        let a = \<bar>x\<bar>;
            e = max (floor_log2 a) (- 1022);
            ulp = pow2 (e - 52);
            n = round_half_even (a / ulp)
        in if 1023 < e \<or> (e = 1023 \<and> n = 9007199254740992)
           then (if x < 0 then NegInf else PosInf)
           else if n = 0 then (if x < 0 then NegZero else Finite 0)
           else Finite ((if x < 0 then - 1 else 1) * of_int n * ulp))"

text \<open>\<open>a + b\<close> on two floats.\<close>

fun float_add :: "pyfloat \<Rightarrow> pyfloat \<Rightarrow> pyfloat" where
  "float_add NaN _ = NaN"
| "float_add _ NaN = NaN"
| "float_add PosInf NegInf = NaN"
| "float_add NegInf PosInf = NaN"
| "float_add PosInf _ = PosInf"
| "float_add _ PosInf = PosInf"
| "float_add NegInf _ = NegInf"
| "float_add _ NegInf = NegInf"
| "float_add NegZero b = b"
| "float_add a NegZero = a"
| "float_add (Finite a) (Finite b) = round_double (a + b)"

text \<open>\<open>a / 60\<close> on a float: the integer becomes \<open>60.0\<close>.\<close>

fun float_div_60 :: "pyfloat \<Rightarrow> pyfloat" where
  "float_div_60 (Finite a) = round_double (a / 60)"
| "float_div_60 x = x"

subsection \<open>\<open>datetime.strptime\<close>\<close>

text \<open>
  \<open>strptime\<close> turns the format into a regular expression, directive by directive, and
  matches it with backtracking; a directive it does not know (\<open>%#m\<close>, \<open>%-m\<close>) is a
  ValueError ("bad directive"), as is a text that does not match, text left over
  after the match, or a day that does not exist.
\<close>

datatype fmt_item = Month | Day | Year2 | Year4 | Lit char

fun parse_format :: "string \<Rightarrow> fmt_item list option" where
  "parse_format [] = Some []"
| "parse_format (c # cs) =
     (if c = CHR ''%'' then
        (case cs of
           [] \<Rightarrow> None
         | d # ds \<Rightarrow>
             (case (if d = CHR ''m'' then Some Month else if d = CHR ''d'' then Some Day
                    else if d = CHR ''y'' then Some Year2 else if d = CHR ''Y'' then Some Year4
                    else None) of
                None \<Rightarrow> None
              | Some it \<Rightarrow> map_option ((#) it) (parse_format ds)))
      else map_option ((#) (Lit c)) (parse_format cs))"

record fields =
  f_year :: "int option"
  f_month :: "int option"
  f_day :: "int option"

definition no_fields :: fields where
  "no_fields = \<lparr>f_year = None, f_month = None, f_day = None\<rparr>"

text \<open>
  The alternatives of a directive's group in the order the regular expression tries
  them: \<open>%m\<close> is \<open>1[0-2]|0[1-9]|[1-9]\<close>, \<open>%d\<close> is
  \<open>3[01]|[12]\d|0[1-9]|[1-9]| [1-9]\<close>, \<open>%y\<close> is \<open>\d\d\<close>, \<open>%Y\<close> is \<open>\d\d\d\d\<close>.
  Each alternative is the value read and the text left.
\<close>

definition two_digits :: "string \<Rightarrow> (int \<times> string) list" where
  "two_digits s = (case s of
      a # b # r \<Rightarrow> (if is_digit a \<and> is_digit b then [(digits_val [a, b] 0, r)] else [])
    | _ \<Rightarrow> [])"

definition one_digit :: "string \<Rightarrow> (int \<times> string) list" where
  "one_digit s = (case s of
      a # r \<Rightarrow> (if is_digit a \<and> a \<noteq> CHR ''0'' then [(digit_val a, r)] else [])
    | _ \<Rightarrow> [])"

definition month_alts :: "string \<Rightarrow> (int \<times> string) list" where
  "month_alts s = filter (\<lambda>(v, r). 1 \<le> v \<and> v \<le> 12) (two_digits s) @ one_digit s"

definition day_alts :: "string \<Rightarrow> (int \<times> string) list" where
  "day_alts s = filter (\<lambda>(v, r). 1 \<le> v \<and> v \<le> 31) (two_digits s) @ one_digit s
     @ (case s of a # r \<Rightarrow> (if a = CHR '' '' then one_digit r else []) | _ \<Rightarrow> [])"

definition year2_alts :: "string \<Rightarrow> (int \<times> string) list" where
  "year2_alts s = two_digits s"

definition year4_alts :: "string \<Rightarrow> (int \<times> string) list" where
  "year4_alts s = (case s of
      a # b # c # d # r \<Rightarrow>
        (if is_digit a \<and> is_digit b \<and> is_digit c \<and> is_digit d
         then [(digits_val [a, b, c, d] 0, r)] else [])
    | _ \<Rightarrow> [])"

fun first_some :: "('a \<Rightarrow> 'b option) \<Rightarrow> 'a list \<Rightarrow> 'b option" where
  "first_some f [] = None"
| "first_some f (x # xs) = (case f x of Some y \<Rightarrow> Some y | None \<Rightarrow> first_some f xs)"

text \<open>The first match of the whole pattern, in the priority order of backtracking.\<close>

fun rmatch :: "fmt_item list \<Rightarrow> string \<Rightarrow> fields \<Rightarrow> (fields \<times> string) option" where
  "rmatch [] s fs = Some (fs, s)"
| "rmatch (Lit c # its) s fs =
     (case s of [] \<Rightarrow> None | a # r \<Rightarrow> if a = c then rmatch its r fs else None)"
| "rmatch (Month # its) s fs =
     first_some (\<lambda>(v, r). rmatch its r (fs\<lparr>f_month := Some v\<rparr>)) (month_alts s)"
| "rmatch (Day # its) s fs =
     first_some (\<lambda>(v, r). rmatch its r (fs\<lparr>f_day := Some v\<rparr>)) (day_alts s)"
| "rmatch (Year2 # its) s fs =
     first_some (\<lambda>(v, r). rmatch its r
        (fs\<lparr>f_year := Some (if v \<le> 68 then 2000 + v else 1900 + v)\<rparr>)) (year2_alts s)"
| "rmatch (Year4 # its) s fs =
     first_some (\<lambda>(v, r). rmatch its r (fs\<lparr>f_year := Some v\<rparr>)) (year4_alts s)"

definition strptime :: "string \<Rightarrow> string \<Rightarrow> py_error + date" where
  "strptime s fmt =
     (case parse_format fmt of
        None \<Rightarrow> Inl ValueError
      | Some its \<Rightarrow>
          (case rmatch its s no_fields of
             None \<Rightarrow> Inl ValueError
           | Some (fs, rest) \<Rightarrow>
               if rest \<noteq> [] then Inl ValueError
               else
                 let dt = (case f_year fs of None \<Rightarrow> 1900 | Some y \<Rightarrow> y,
                           case f_month fs of None \<Rightarrow> 1 | Some m \<Rightarrow> m,
                           case f_day fs of None \<Rightarrow> 1 | Some d \<Rightarrow> d)
                 in if valid_date dt then Inr dt else Inl ValueError))"

definition strptime_ymd :: "string \<Rightarrow> py_error + date" where
  "strptime_ymd s = strptime s ''%Y-%m-%d''"


section \<open>The Date Normalizer: \<open>DateStandardizer.parse_date_flexible\<close>\<close>

definition date_formats :: "string list" where
  "date_formats =
     [''%m/%d/%y'', ''%#m/%#d/%y'', ''%-m/%-d/%y'',
      ''%m/%d/%Y'', ''%#m/%#d/%Y'', ''%-m/%-d/%Y'',
      ''%m-%d-%y'', ''%#m-%#d-%y'', ''%-m/%-d/%y'',
      ''%m-%d-%Y'', ''%#m-%#d-%Y'', ''%-m/%-d/%Y'',
      ''%Y-%m-%d'']"

text \<open>\<open>re.match(r'^\d{4}-\d{2}-\d{2}$', s)\<close> on a stripped text.\<close>

definition iso_shape :: "string \<Rightarrow> bool" where
  "iso_shape s = (case s of
      [a, b, c, d, h1, e, f, h2, g, h] \<Rightarrow>
        is_digit a \<and> is_digit b \<and> is_digit c \<and> is_digit d \<and> h1 = CHR ''-'' \<and>
        is_digit e \<and> is_digit f \<and> h2 = CHR ''-'' \<and> is_digit g \<and> is_digit h
    | _ \<Rightarrow> False)"

text \<open>The handling of a year below 1950 after a successful \<open>strptime\<close>.\<close>

definition adjust_year :: "date \<Rightarrow> py_error + date" where
  "adjust_year dt = (case dt of (y, m, d) \<Rightarrow>
     if y < 1950 then
       (if y < 50 then replace_year dt (y + 2000) else replace_year dt (y + 1900))
     else Inr dt)"

text \<open>The body of the \<open>try\<close> inside the loop over the formats.\<close>

definition try_format :: "string \<Rightarrow> string \<Rightarrow> py_error + string" where
  "try_format s fmt =
     (case strptime s fmt of
        Inl e \<Rightarrow> Inl e
      | Inr parsed_date \<Rightarrow>
          (case adjust_year parsed_date of
             Inl e \<Rightarrow> Inl e
           | Inr parsed_date' \<Rightarrow> Inr (strftime_ymd parsed_date')))"

text \<open>
  The loop over the formats: \<open>except ValueError: continue\<close> goes on with the next
  format, any other exception leaves the function.
\<close>

fun try_formats :: "string list \<Rightarrow> string \<Rightarrow> py_error + string option" where
  "try_formats [] s = Inr None"
| "try_formats (fmt # fmts) s =
     (case try_format s fmt of
        Inr r \<Rightarrow> Inr (Some r)
      | Inl ValueError \<Rightarrow> try_formats fmts s
      | Inl e \<Rightarrow> Inl e)"

definition parse_date_flexible :: "string \<Rightarrow> py_error + string option" where
  "parse_date_flexible date_str0 =
     (if date_str0 = [] \<or> strip date_str0 = [] then Inr None
      else
        let date_str = strip date_str0
        in if iso_shape date_str
           then (case strptime date_str ''%Y-%m-%d'' of
                   Inr _ \<Rightarrow> Inr (Some date_str)
                 | Inl ValueError \<Rightarrow> try_formats date_formats date_str
                 | Inl e \<Rightarrow> Inl e)
           else try_formats date_formats date_str)"

section \<open>SQLite: the \<open>DATE\<close> function and the tables\<close>

text \<open>
  \<open>DATE(text, '+n days')\<close> on a text of the form YYYY-MM-DD (month 01..12, day
  01..31; a day past the end of the month runs into the next month). Any other text
  gives NULL here: SQLite's further time-string forms (a time of day after the date,
  a Julian day number, \<open>'now'\<close>) are not modelled. The result is NULL outside
  SQLite's range of dates.
\<close>

definition sqlite_parse_ymd :: "string \<Rightarrow> date option" where
  "sqlite_parse_ymd s =
     (if iso_shape s then
        (let y = digits_val (take 4 s) 0; m = digits_val (take 2 (drop 5 s)) 0;
             d = digits_val (take 2 (drop 8 s)) 0
         in if 1 \<le> m \<and> m \<le> 12 \<and> 1 \<le> d \<and> d \<le> 31 then Some (y, m, d) else None)
      else None)"

definition sqlite_fmt :: "date \<Rightarrow> string" where
  "sqlite_fmt dt = (case dt of (y, m, d) \<Rightarrow>
     (if y < 0 then ''-'' @ pad4 (- y) else pad4 y) @ ''-'' @ pad2 m @ ''-'' @ pad2 d)"

definition sqlite_date :: "string \<Rightarrow> int \<Rightarrow> string option" where
  "sqlite_date s n =
     (case sqlite_parse_ymd s of
        None \<Rightarrow> None
      | Some dt \<Rightarrow>
          (let o' = ymd2ord dt + n
           in if - 1721424 \<le> o' \<and> o' \<le> max_ordinal then Some (sqlite_fmt (ord2ymd o')) else None))"

text \<open>
  The tables, with the columns the modelled code reads or writes. A table is the list
  of its rows in rowid order; a nullable column is an \<open>option\<close>.
\<close>

record equipment_row =
  bfm_equipment_no :: string
  description :: "string option"
  location :: "string option"
  monthly_pm :: bool
  six_month_pm :: bool
  annual_pm :: bool
  last_monthly_pm :: "string option"
  last_six_month_pm :: "string option"
  last_annual_pm :: "string option"
  next_monthly_pm :: "string option"
  next_six_month_pm :: "string option"
  next_annual_pm :: "string option"
  status :: "string option"

record pm_completion_row =
  pc_bfm_equipment_no :: string
  pc_pm_type :: string
  pc_technician_name :: string
  pc_completion_date :: string
  pc_labor_hours :: pyfloat
  pc_labor_minutes :: pyfloat
  pc_pm_due_date :: string
  pc_special_equipment :: string
  pc_notes :: string
  pc_next_annual_pm_date :: string

record schedule_row =
  ws_week_start_date :: string
  ws_bfm_equipment_no :: string
  ws_pm_type :: string
  ws_assigned_technician :: string
  ws_status :: string
  ws_scheduled_date :: string
  ws_completion_date :: "string option"
  ws_labor_hours :: "pyfloat option"
  ws_notes :: "string option"

record cannot_find_row =
  cf_bfm_equipment_no :: string
  cf_description :: "string option"
  cf_location :: "string option"
  cf_technician_name :: string
  cf_report_date :: string
  cf_notes :: string

record run_to_failure_row =
  rtf_bfm_equipment_no :: string
  rtf_description :: "string option"
  rtf_location :: "string option"
  rtf_technician_name :: string
  rtf_completion_date :: string
  rtf_labor_hours :: pyfloat
  rtf_notes :: string

record db =
  equipment :: "equipment_row list"
  pm_completions :: "pm_completion_row list"
  weekly_pm_schedules :: "schedule_row list"
  cannot_find_assets :: "cannot_find_row list"
  run_to_failure_assets :: "run_to_failure_row list"

text \<open>
  The connection: the committed database and, while a transaction is open, the
  working copy the statements of this connection see and change. \<open>COMMIT\<close> makes
  the working copy the committed database, \<open>ROLLBACK\<close> drops it.
\<close>

record conn =
  committed :: db
  pending :: "db option"

definition cur :: "conn \<Rightarrow> db" where
  "cur c = (case pending c of None \<Rightarrow> committed c | Some d \<Rightarrow> d)"


definition db_commit :: "conn \<Rightarrow> conn" where
  "db_commit c = \<lparr>committed = cur c, pending = None\<rparr>"

definition db_rollback :: "conn \<Rightarrow> conn" where
  "db_rollback c = c\<lparr>pending := None\<rparr>"

text \<open>\<open>get_week_start\<close>: the Monday of the date's week.\<close>

definition get_week_start :: "date \<Rightarrow> py_error + date" where
  "get_week_start dt = add_days dt (- weekday dt)"


section \<open>The Conflict Validator: \<open>validate_pm_completion\<close>\<close>

text \<open>
  The lines the validator appends to \<open>issues\<close>, one constructor per message, with the
  values the message is formatted from.
\<close>

datatype issue =
    DuplicateDetected string string int
  | PreviousCompletion string string
  | MinimumInterval string int
  | DateParsingIssue string
  | SameTechnician string string
  | EquipmentNotFound string
  | UnusualStatus string "string option" string
  | NoScheduledPM
  | ValidationError py_error

record validation_result =
  valid :: bool
  issues :: "issue list"

definition min_days :: "string \<Rightarrow> int" where
  "min_days pm_type =
     (if pm_type = ''Monthly'' then 25 else if pm_type = ''Six Month'' then 150
      else if pm_type = ''Annual'' then 300 else 7)"

text \<open>
  \<open>ORDER BY completion_date DESC LIMIT 1\<close>: a row with the greatest date text; among
  rows with the same date, the first of the table.
\<close>

fun latest_completion :: "pm_completion_row list \<Rightarrow> pm_completion_row option" where
  "latest_completion [] = None"
| "latest_completion (r # rs) =
     (case latest_completion rs of
        None \<Rightarrow> Some r
      | Some m \<Rightarrow> if text_less (pc_completion_date r) (pc_completion_date m) then Some m else Some r)"

text \<open>Check 1: the same PM type completed recently for this equipment.\<close>

definition check_recent_completion :: "db \<Rightarrow> string \<Rightarrow> string \<Rightarrow> string \<Rightarrow> issue list" where
  "check_recent_completion d bfm_no pm_type completion_date =
     (case latest_completion
             (filter (\<lambda>r. pc_bfm_equipment_no r = bfm_no \<and> pc_pm_type r = pm_type) (pm_completions d)) of
        None \<Rightarrow> []
      | Some recent_completion \<Rightarrow>
          (let last_completion_date = pc_completion_date recent_completion;
               last_technician = pc_technician_name recent_completion
           in case strptime_ymd last_completion_date of
                Inl _ \<Rightarrow> [DateParsingIssue last_completion_date]
              | Inr last_date \<Rightarrow>
                  (case strptime_ymd completion_date of
                     Inl _ \<Rightarrow> [DateParsingIssue last_completion_date]
                   | Inr current_date \<Rightarrow>
                       (let days_since = days_between current_date last_date;
                            threshold = min_days pm_type
                        in if days_since < threshold
                           then [DuplicateDetected pm_type bfm_no days_since,
                                 PreviousCompletion last_completion_date last_technician,
                                 MinimumInterval pm_type threshold]
                           else []))))"

text \<open>
  Check 2: the same technician on the same equipment with
  \<open>completion_date >= DATE(?, '-7 days')\<close>; a comparison with NULL selects no row.
\<close>

definition check_same_technician :: "db \<Rightarrow> string \<Rightarrow> string \<Rightarrow> string \<Rightarrow> issue list" where
  "check_same_technician d bfm_no technician completion_date =
     (let recent_count =
            (case sqlite_date completion_date (- 7) of
               None \<Rightarrow> 0
             | Some since \<Rightarrow>
                 length (filter (\<lambda>r. pc_bfm_equipment_no r = bfm_no \<and> pc_technician_name r = technician
                                    \<and> text_le since (pc_completion_date r)) (pm_completions d)))
      in if recent_count > 0 then [SameTechnician technician bfm_no] else [])"

text \<open>Check 3: the equipment exists and is active.\<close>

definition check_equipment :: "db \<Rightarrow> string \<Rightarrow> string \<Rightarrow> issue list" where
  "check_equipment d bfm_no pm_type =
     (case filter (\<lambda>e. bfm_equipment_no e = bfm_no) (equipment d) of
        [] \<Rightarrow> [EquipmentNotFound bfm_no]
      | e # _ \<Rightarrow>
          if (status e = Some ''Missing'' \<or> status e = Some ''Run to Failure'')
             \<and> \<not> (pm_type = ''CANNOT FIND'' \<or> pm_type = ''Run to Failure'')
          then [UnusualStatus bfm_no (status e) pm_type] else [])"

text \<open>Check 4: a scheduled PM exists for the week of the completion date.\<close>

definition check_scheduled :: "db \<Rightarrow> string \<Rightarrow> string \<Rightarrow> string \<Rightarrow> date \<Rightarrow> issue list" where
  "check_scheduled d bfm_no pm_type technician current_week_start =
     (let scheduled_count =
            length (filter (\<lambda>r. ws_bfm_equipment_no r = bfm_no \<and> ws_pm_type r = pm_type
                              \<and> ws_assigned_technician r = technician
                              \<and> ws_week_start_date r = strftime_ymd current_week_start)
                      (weekly_pm_schedules d))
      in if scheduled_count = 0 \<and> (pm_type = ''Monthly'' \<or> pm_type = ''Annual'')
         then [NoScheduledPM] else [])"

text \<open>
  The whole validator. The \<open>strptime\<close> of check 4 is outside the inner \<open>try\<close>: its
  ValueError reaches the outer \<open>except\<close>, which returns the "Validation error" result.
\<close>

definition validate_pm_completion ::
  "db \<Rightarrow> string \<Rightarrow> string \<Rightarrow> string \<Rightarrow> string \<Rightarrow> validation_result" where
  "validate_pm_completion d bfm_no pm_type technician completion_date =
     (let issues1 = check_recent_completion d bfm_no pm_type completion_date;
          issues2 = check_same_technician d bfm_no technician completion_date;
          issues3 = check_equipment d bfm_no pm_type
      in case strptime_ymd completion_date of
           Inl e \<Rightarrow> \<lparr>valid = False, issues = [ValidationError e]\<rparr>
         | Inr dt \<Rightarrow>
             (case get_week_start dt of
                Inl e \<Rightarrow> \<lparr>valid = False, issues = [ValidationError e]\<rparr>
              | Inr current_week_start \<Rightarrow>
                  (let all_issues = issues1 @ issues2 @ issues3
                         @ check_scheduled d bfm_no pm_type technician current_week_start
                   in if all_issues \<noteq> [] then \<lparr>valid = False, issues = all_issues\<rparr>
                      else \<lparr>valid = True, issues = []\<rparr>)))"


section \<open>The Completion Transaction Processor\<close>

text \<open>
  Storage failures: which statements of the transaction raise an error when they are
  executed (a locked database, a full disk). A statement that fails changes nothing;
  \<open>ROLLBACK\<close> itself works whenever a transaction is open.
\<close>

record faults =
  fail_begin :: bool
  fail_select :: bool
  fail_insert :: bool
  fail_update_equipment :: bool
  fail_update_schedule :: bool
  fail_commit :: bool

definition no_faults :: faults where
  "no_faults = \<lparr>fail_begin = False, fail_select = False, fail_insert = False,
     fail_update_equipment = False, fail_update_schedule = False, fail_commit = False\<rparr>"

text \<open>\<open>UPDATE equipment SET ... WHERE bfm_equipment_no = ?\<close> and its \<open>rowcount\<close>.\<close>

definition update_equipment :: "string \<Rightarrow> (equipment_row \<Rightarrow> equipment_row) \<Rightarrow> db \<Rightarrow> db" where
  "update_equipment bfm_no f d =
     d\<lparr>equipment := map (\<lambda>e. if bfm_equipment_no e = bfm_no then f e else e) (equipment d)\<rparr>"

definition equipment_rowcount :: "string \<Rightarrow> db \<Rightarrow> nat" where
  "equipment_rowcount bfm_no d = length (filter (\<lambda>e. bfm_equipment_no e = bfm_no) (equipment d))"

text \<open>The \<open>UPDATE weekly_pm_schedules\<close> that closes the matching Scheduled entry.\<close>

definition complete_schedule ::
  "string \<Rightarrow> string \<Rightarrow> string \<Rightarrow> string \<Rightarrow> string \<Rightarrow> pyfloat \<Rightarrow> string \<Rightarrow> db \<Rightarrow> db" where
  "complete_schedule bfm_no pm_type technician week_start completion_date hours notes d =
     d\<lparr>weekly_pm_schedules :=
         map (\<lambda>r. if ws_bfm_equipment_no r = bfm_no \<and> ws_pm_type r = pm_type
                       \<and> ws_assigned_technician r = technician
                       \<and> ws_week_start_date r = week_start \<and> ws_status r = ''Scheduled''
                    then r\<lparr>ws_status := ''Completed'', ws_completion_date := Some completion_date,
                            ws_labor_hours := Some hours, ws_notes := Some notes\<rparr>
                    else r)
             (weekly_pm_schedules d)\<rparr>"

text \<open>
  The \<open>SET\<close> clause of the \<open>UPDATE equipment\<close> that \<open>process_normal_pm_completion\<close>
  executes for the PM type: the Monthly one writes \<open>next_annual_pm\<close> as well when a
  next annual date was passed.
\<close>

definition cycle_update :: "string \<Rightarrow> string \<Rightarrow> string \<Rightarrow> equipment_row \<Rightarrow> equipment_row" where
  "cycle_update pm_type completion_date next_annual_pm_v e =
     (if pm_type = ''Monthly'' then
        (if next_annual_pm_v \<noteq> [] then
           e\<lparr>last_monthly_pm := Some completion_date,
             next_monthly_pm := sqlite_date completion_date 30,
             next_annual_pm := Some next_annual_pm_v\<rparr>
         else
           e\<lparr>last_monthly_pm := Some completion_date,
             next_monthly_pm := sqlite_date completion_date 30\<rparr>)
      else if pm_type = ''Six Month'' then
        e\<lparr>last_six_month_pm := Some completion_date,
          next_six_month_pm := sqlite_date completion_date 180\<rparr>
      else if pm_type = ''Annual'' then
        e\<lparr>last_annual_pm := Some completion_date,
          next_annual_pm := sqlite_date completion_date 365\<rparr>
      else e)"

definition is_cycle :: "string \<Rightarrow> bool" where
  "is_cycle pm_type = (pm_type = ''Monthly'' \<or> pm_type = ''Six Month'' \<or> pm_type = ''Annual'')"

text \<open>
  \<open>process_normal_pm_completion\<close>. Every exception inside is caught and makes the
  function return False; the database is returned as the statements executed so far
  have left it. For a PM type other than the three cycles no \<open>UPDATE equipment\<close> is
  executed, and \<open>cursor.rowcount\<close> is still that of the \<open>INSERT\<close>, which is 1.
\<close>

definition process_normal_pm_completion ::
  "faults \<Rightarrow> db \<Rightarrow> string \<Rightarrow> string \<Rightarrow> string \<Rightarrow> string \<Rightarrow> pyfloat \<Rightarrow> pyfloat \<Rightarrow> string \<Rightarrow> string
     \<Rightarrow> string \<Rightarrow> string \<Rightarrow> bool \<times> db" where
  "process_normal_pm_completion f d bfm_no pm_type technician completion_date
       labor_hours labor_minutes pm_due_date special_equipment notes next_annual_pm_v =
     (if fail_insert f then (False, d)
      else
        let d1 = d\<lparr>pm_completions := pm_completions d @
                     [\<lparr>pc_bfm_equipment_no = bfm_no, pc_pm_type = pm_type,
                       pc_technician_name = technician, pc_completion_date = completion_date,
                       pc_labor_hours = labor_hours, pc_labor_minutes = labor_minutes,
                       pc_pm_due_date = pm_due_date, pc_special_equipment = special_equipment,
                       pc_notes = notes, pc_next_annual_pm_date = next_annual_pm_v\<rparr>]\<rparr>
        in if is_cycle pm_type \<and> fail_update_equipment f then (False, d1)
           else
             let d2 = (if is_cycle pm_type
                       then update_equipment bfm_no
                              (cycle_update pm_type completion_date next_annual_pm_v) d1
                       else d1);
                 affected_rows = (if is_cycle pm_type then equipment_rowcount bfm_no d1 else 1)
             in if affected_rows \<noteq> 1 then (False, d2)
                else
                  (case strptime_ymd completion_date of
                     Inl _ \<Rightarrow> (False, d2)
                   | Inr dt \<Rightarrow>
                       (case get_week_start dt of
                          Inl _ \<Rightarrow> (False, d2)
                        | Inr current_week_start \<Rightarrow>
                            if fail_update_schedule f then (False, d2)
                            else (True,
                                  complete_schedule bfm_no pm_type technician
                                    (strftime_ymd current_week_start) completion_date
                                    (float_add labor_hours (float_div_60 labor_minutes)) notes d2))))"

text \<open>
  \<open>equipment_info[0] if equipment_info else ''\<close>: the column of the first matching row
  (which may be NULL), the empty text when there is no row.
\<close>

definition equipment_info :: "db \<Rightarrow> string \<Rightarrow> string option \<times> string option" where
  "equipment_info d bfm_no =
     (case filter (\<lambda>e. bfm_equipment_no e = bfm_no) (equipment d) of
        [] \<Rightarrow> (Some [], Some [])
      | e # _ \<Rightarrow> (description e, location e))"

definition process_cannot_find_pm ::
  "faults \<Rightarrow> db \<Rightarrow> string \<Rightarrow> string \<Rightarrow> string \<Rightarrow> string \<Rightarrow> bool \<times> db" where
  "process_cannot_find_pm flt d bfm_no technician completion_date notes =
     (if fail_select flt \<or> fail_insert flt then (False, d)
      else
        let d1 = d\<lparr>cannot_find_assets := cannot_find_assets d @
                     [\<lparr>cf_bfm_equipment_no = bfm_no, cf_description = fst (equipment_info d bfm_no),
                       cf_location = snd (equipment_info d bfm_no), cf_technician_name = technician,
                       cf_report_date = completion_date, cf_notes = notes\<rparr>]\<rparr>
        in if fail_update_equipment flt then (False, d1)
           else
             let d2 = update_equipment bfm_no (\<lambda>e. e\<lparr>status := Some ''Missing''\<rparr>) d1
             in if equipment_rowcount bfm_no d1 \<noteq> 1 then (False, d2) else (True, d2))"

definition process_run_to_failure_pm ::
  "faults \<Rightarrow> db \<Rightarrow> string \<Rightarrow> string \<Rightarrow> string \<Rightarrow> pyfloat \<Rightarrow> string \<Rightarrow> bool \<times> db" where
  "process_run_to_failure_pm flt d bfm_no technician completion_date total_hours notes =
     (if fail_select flt \<or> fail_insert flt then (False, d)
      else
        let d1 = d\<lparr>run_to_failure_assets := run_to_failure_assets d @
                     [\<lparr>rtf_bfm_equipment_no = bfm_no, rtf_description = fst (equipment_info d bfm_no),
                       rtf_location = snd (equipment_info d bfm_no), rtf_technician_name = technician,
                       rtf_completion_date = completion_date, rtf_labor_hours = total_hours,
                       rtf_notes = notes\<rparr>]\<rparr>
        in if fail_update_equipment flt then (False, d1)
           else
             let d2 = update_equipment bfm_no
                        (\<lambda>e. e\<lparr>status := Some ''Run to Failure'', monthly_pm := False,
                                six_month_pm := False, annual_pm := False\<rparr>) d1
             in if equipment_rowcount bfm_no d1 \<noteq> 1 then (False, d2) else (True, d2))"

text \<open>The column \<open>last_<type>_pm\<close> of a cycle, as \<open>verify_pm_completion_saved\<close> names it.\<close>

definition last_pm_date_of :: "string \<Rightarrow> equipment_row \<Rightarrow> string option" where
  "last_pm_date_of pm_type e =
     (if pm_type = ''Monthly'' then last_monthly_pm e
      else if pm_type = ''Six Month'' then last_six_month_pm e
      else last_annual_pm e)"

text \<open>\<open>verify_pm_completion_saved\<close>: the \<open>verified\<close> flag of its result.\<close>

definition verify_pm_completion_saved :: "db \<Rightarrow> string \<Rightarrow> string \<Rightarrow> string \<Rightarrow> string \<Rightarrow> bool" where
  "verify_pm_completion_saved d bfm_no pm_type technician completion_date =
     (if filter (\<lambda>r. pc_bfm_equipment_no r = bfm_no \<and> pc_pm_type r = pm_type
                     \<and> pc_technician_name r = technician \<and> pc_completion_date r = completion_date)
           (pm_completions d) = [] then False
      else if is_cycle pm_type
              \<and> (case filter (\<lambda>e. bfm_equipment_no e = bfm_no) (equipment d) of
                    [] \<Rightarrow> False
                  | e # _ \<Rightarrow> last_pm_date_of pm_type e \<noteq> Some completion_date)
      then False
      else
        (case strptime_ymd completion_date of
           Inl _ \<Rightarrow> False
         | Inr dt \<Rightarrow>
             (case get_week_start dt of
                Inl _ \<Rightarrow> False
              | Inr current_week_start \<Rightarrow>
                  (case filter (\<lambda>r. ws_bfm_equipment_no r = bfm_no \<and> ws_pm_type r = pm_type
                                    \<and> ws_assigned_technician r = technician
                                    \<and> ws_week_start_date r = strftime_ymd current_week_start)
                          (weekly_pm_schedules d) of
                     [] \<Rightarrow> True
                   | r # _ \<Rightarrow> ws_status r = ''Completed''))))"


subsection \<open>\<open>submit_pm_completion\<close>\<close>

text \<open>
  The completion form as the function reads it. \<open>labor_hours_var\<close> and
  \<open>labor_minutes_var\<close> hold the result of \<open>float(field or 0)\<close>, any double (\<open>float\<close>
  reads \<open>nan\<close> and \<open>inf\<close> too): None when \<open>float\<close> raises ValueError.
\<close>

record form =
  completion_bfm_var :: string
  pm_type_var :: string
  completion_tech_var :: string
  labor_hours_var :: "pyfloat option"
  labor_minutes_var :: "pyfloat option"
  pm_due_date_var :: string
  special_equipment_var :: string
  notes_text :: string
  next_annual_pm_var :: string

text \<open>
  What the function takes from outside the form and the database: today's date
  (\<open>datetime.now()\<close>), the answer to the "proceed anyway?" dialog, Python's \<open>hash\<close> of
  a text, the number \<open>random.randint(-21, 21)\<close> returns, and the storage failures.
\<close>

record env =
  today :: date
  proceed :: bool
  hash_str :: "string \<Rightarrow> int"
  randint :: int
  flt :: faults

datatype outcome =
    MissingField
  | Cancelled
  | Verified
  | VerificationFailed
  | RolledBack
  | SubmitError py_error

text \<open>\<open>re.findall(r'\d+', s)[-1]\<close>: the last maximal run of digits, if there is one.\<close>

definition last_digit_run :: "string \<Rightarrow> string option" where
  "last_digit_run s =
     (let r = dropWhile (\<lambda>c. \<not> is_digit c) (rev s)
      in if r = [] then None else Some (rev (takeWhile is_digit r)))"

text \<open>
  The automatic "next annual PM" date of an Annual completion: 365 days after the
  completion plus the equipment's offset; the first addition is outside the inner
  \<open>try\<close>. Inside it, \<open>int\<close> raises ValueError on a run of more than 4300 digits
  (the interpreter's limit on the conversion of a text to an integer) and the
  addition of the offset may overflow; the \<open>except\<close> then adds the random offset.
\<close>

definition auto_next_annual :: "env \<Rightarrow> string \<Rightarrow> date \<Rightarrow> py_error + string" where
  "auto_next_annual ev bfm_no completion_dt =
     (case add_days completion_dt 365 of
        Inl e \<Rightarrow> Inl e
      | Inr next_annual_dt \<Rightarrow>
          (let fallback =
                 (case add_days next_annual_dt (randint ev) of
                    Inr dt \<Rightarrow> Inr (strftime_ymd dt)
                  | Inl e \<Rightarrow> Inl e);
               offset_days =
                 (case last_digit_run bfm_no of
                    Some numeric_part \<Rightarrow>
                      if 4300 < length numeric_part then Inl ValueError
                      else Inr (digits_val numeric_part 0 mod 61 - 30)
                  | None \<Rightarrow> Inr (hash_str ev bfm_no mod 61 - 30))
           in case offset_days of
                Inl _ \<Rightarrow> fallback
              | Inr n \<Rightarrow>
                  (case add_days next_annual_dt n of
                     Inr dt \<Rightarrow> Inr (strftime_ymd dt)
                   | Inl _ \<Rightarrow> fallback)))"

text \<open>The branch on the PM type inside the transaction.\<close>

definition process_branch ::
  "faults \<Rightarrow> db \<Rightarrow> string \<Rightarrow> string \<Rightarrow> string \<Rightarrow> string \<Rightarrow> pyfloat \<Rightarrow> pyfloat \<Rightarrow> string \<Rightarrow> string
     \<Rightarrow> string \<Rightarrow> string \<Rightarrow> bool \<times> db" where
  "process_branch f d bfm_no pm_type technician completion_date labor_hours labor_minutes
       pm_due_date special_equipment notes next_annual_pm_v =
     (if pm_type = ''CANNOT FIND''
      then process_cannot_find_pm f d bfm_no technician completion_date notes
      else if pm_type = ''Run to Failure''
      then process_run_to_failure_pm f d bfm_no technician completion_date
             (float_add labor_hours (float_div_60 labor_minutes)) notes
      else process_normal_pm_completion f d bfm_no pm_type technician completion_date
             labor_hours labor_minutes pm_due_date special_equipment notes next_annual_pm_v)"

text \<open>
  The transaction: \<open>BEGIN TRANSACTION\<close>, the branch on the PM type, then \<open>COMMIT\<close> and
  the verification, or \<open>ROLLBACK\<close>. \<open>BEGIN\<close> raises when a transaction is already
  open on the connection; the handler of any exception executes \<open>ROLLBACK\<close> and
  re-raises.
\<close>

definition run_transaction ::
  "env \<Rightarrow> conn \<Rightarrow> string \<Rightarrow> string \<Rightarrow> string \<Rightarrow> string \<Rightarrow> pyfloat \<Rightarrow> pyfloat \<Rightarrow> string \<Rightarrow> string
     \<Rightarrow> string \<Rightarrow> string \<Rightarrow> outcome \<times> conn" where
  "run_transaction ev c bfm_no pm_type technician completion_date labor_hours labor_minutes
       pm_due_date special_equipment notes next_annual_pm_v =
     (if fail_begin (flt ev) \<or> pending c \<noteq> None
      then (SubmitError OperationalError, db_rollback c)
      else
        let result = process_branch (flt ev) (committed c) bfm_no pm_type technician
                       completion_date labor_hours labor_minutes pm_due_date special_equipment
                       notes next_annual_pm_v;
            c1 = c\<lparr>pending := Some (snd result)\<rparr>
        in if fst result then
             (if fail_commit (flt ev) then (SubmitError OperationalError, db_rollback c1)
              else
                let c2 = db_commit c1
                in if verify_pm_completion_saved (cur c2) bfm_no pm_type technician completion_date
                   then (Verified, c2) else (VerificationFailed, c2))
           else (RolledBack, db_rollback c1))"

text \<open>The completion date: the PM due date of the form if given, today's date otherwise.\<close>

definition completion_date_of :: "env \<Rightarrow> form \<Rightarrow> string" where
  "completion_date_of ev fm =
     (if strip (pm_due_date_var fm) \<noteq> [] then strip (pm_due_date_var fm)
      else strftime_ymd (today ev))"

definition submit_pm_completion :: "env \<Rightarrow> form \<Rightarrow> conn \<Rightarrow> outcome \<times> conn" where
  "submit_pm_completion ev fm c =
     (if completion_bfm_var fm = [] \<or> pm_type_var fm = [] \<or> completion_tech_var fm = []
      then (MissingField, c)
      else
        let bfm_no = strip (completion_bfm_var fm);
            pm_type = pm_type_var fm;
            technician = completion_tech_var fm
        in case (labor_hours_var fm, labor_minutes_var fm) of
             (Some labor_hours, Some labor_minutes) \<Rightarrow>
               (let pm_due_date = strip (pm_due_date_var fm);
                    special_equipment = special_equipment_var fm;
                    notes = notes_text fm;
                    next_annual_pm0 = strip (next_annual_pm_var fm);
                    completion_date = completion_date_of ev fm;
                    validation_result =
                      validate_pm_completion (cur c) bfm_no pm_type technician completion_date
                in if \<not> valid validation_result \<and> \<not> proceed ev then (Cancelled, c)
                   else
                     let next_annual_pm1 =
                           (if next_annual_pm0 = [] \<and> pm_type = ''Annual''
                            then auto_next_annual ev bfm_no
                                   (case strptime_ymd completion_date of
                                      Inr dt \<Rightarrow> dt | Inl _ \<Rightarrow> today ev)
                            else Inr next_annual_pm0)
                     in case next_annual_pm1 of
                          Inl e \<Rightarrow> (SubmitError e, c)
                        | Inr next_annual_pm_v \<Rightarrow>
                            run_transaction ev c bfm_no pm_type technician completion_date
                              labor_hours labor_minutes pm_due_date special_equipment notes
                              next_annual_pm_v)
           | _ \<Rightarrow> (SubmitError ValueError, c))"


section \<open>The Weekly Assignment Generator\<close>

text \<open>Python's truth value of a nullable text: neither None nor empty.\<close>

definition truthy :: "string option \<Rightarrow> bool" where
  "truthy v = (case v of None \<Rightarrow> False | Some s \<Rightarrow> s \<noteq> [])"

text \<open>
  \<open>is_pm_overdue\<close>, with \<open>datetime.now()\<close> as the first argument. The comparison
  \<open>days_since >= frequency_days * 0.8\<close> is written on integers; for the two
  frequencies the generator passes, 30 and 365, the floating-point products are
  exactly 24.0 and 292.0.
\<close>

definition is_pm_overdue :: "date \<Rightarrow> string option \<Rightarrow> int \<Rightarrow> bool" where
  "is_pm_overdue now last_pm_date frequency_days =
     (case last_pm_date of
        None \<Rightarrow> True
      | Some s \<Rightarrow>
          if s = [] then True
          else (case parse_date_flexible s of
                  Inl _ \<Rightarrow> True
                | Inr None \<Rightarrow> True
                | Inr (Some parsed_date) \<Rightarrow>
                    if parsed_date = [] then True
                    else (case strptime_ymd parsed_date of
                            Inl _ \<Rightarrow> True
                          | Inr last_date \<Rightarrow>
                              (let days_since = days_between now last_date
                               in 10 * days_since \<ge> 8 * frequency_days))))"

text \<open>The choice of the PM type for one equipment row, the body of the first loop.\<close>

definition assigned_pm :: "date \<Rightarrow> equipment_row \<Rightarrow> string option" where
  "assigned_pm now e =
     (if monthly_pm e \<and> (\<not> truthy (last_monthly_pm e) \<or> is_pm_overdue now (last_monthly_pm e) 30)
      then Some ''Monthly''
      else if annual_pm e \<and> (\<not> truthy (last_annual_pm e) \<or> is_pm_overdue now (last_annual_pm e) 365)
      then (if \<not> monthly_pm e \<or> (truthy (last_monthly_pm e) \<and> \<not> is_pm_overdue now (last_monthly_pm e) 30)
            then Some ''Annual'' else None)
      else None)"

text \<open>\<open>ORDER BY e.bfm_equipment_no\<close>: a stable sort on the text of the number.\<close>

fun insort_bfm :: "equipment_row \<Rightarrow> equipment_row list \<Rightarrow> equipment_row list" where
  "insort_bfm x [] = [x]"
| "insort_bfm x (y # ys) =
     (if text_le (bfm_equipment_no x) (bfm_equipment_no y) then x # y # ys else y # insort_bfm x ys)"

definition active_equipment :: "db \<Rightarrow> equipment_row list" where
  "active_equipment d =
     foldr insort_bfm
       (filter (\<lambda>e. status e = Some ''Active'' \<and> status e \<noteq> Some ''Run to Failure''
                    \<and> status e \<noteq> Some ''Missing'') (equipment d)) []"

text \<open>
  The first loop: \<open>pm_assignments\<close> as triples (number, PM type, description), with the
  set \<open>assigned_assets\<close> of the numbers already taken.
\<close>

fun select_assignments ::
  "date \<Rightarrow> equipment_row list \<Rightarrow> string set \<Rightarrow> (string \<times> string \<times> string option) list" where
  "select_assignments now [] assigned_assets = []"
| "select_assignments now (e # es) assigned_assets =
     (if bfm_equipment_no e \<in> assigned_assets then select_assignments now es assigned_assets
      else (case assigned_pm now e of
              None \<Rightarrow> select_assignments now es assigned_assets
            | Some pm \<Rightarrow>
                (bfm_equipment_no e, pm, description e)
                  # select_assignments now es (insert (bfm_equipment_no e) assigned_assets)))"










subsection \<open>\<open>is_pm_due\<close>\<close>





section \<open>Example data\<close>

text \<open>
  One equipment row, a database and a connection holding it, an environment without
  storage failures in which the dialog is answered "yes", and a completion form for
  2025-02-01 by a technician of the roster; the examples below are evaluated on them.
\<close>

definition example_equipment :: equipment_row where
  "example_equipment =
     \<lparr>bfm_equipment_no = ''E-0100'', description = Some ''Press'', location = Some ''Bay 1'',
      monthly_pm = True, six_month_pm = True, annual_pm = True,
      last_monthly_pm = Some ''2025-01-01'', last_six_month_pm = None,
      last_annual_pm = Some ''2024-06-01'', next_monthly_pm = Some ''2025-01-31'',
      next_six_month_pm = None, next_annual_pm = Some ''2025-06-01'', status = Some ''Active''\<rparr>"

definition example_db :: db where
  "example_db =
     \<lparr>equipment = [example_equipment], pm_completions = [], weekly_pm_schedules = [],
      cannot_find_assets = [], run_to_failure_assets = []\<rparr>"

definition example_conn :: conn where
  "example_conn = \<lparr>committed = example_db, pending = None\<rparr>"

definition example_env :: env where
  "example_env =
     \<lparr>today = (2025, 2, 3), proceed = True, hash_str = (\<lambda>_. 0), randint = 0, flt = no_faults\<rparr>"

definition example_form :: "string \<Rightarrow> string \<Rightarrow> string \<Rightarrow> form" where
  "example_form bfm_no pm_type next_annual =
     \<lparr>completion_bfm_var = bfm_no, pm_type_var = pm_type,
      completion_tech_var = ''Mark Michaels'', labor_hours_var = Some (Finite 1),
      labor_minutes_var = Some (Finite 30), pm_due_date_var = ''2025-02-01'',
      special_equipment_var = [], notes_text = [], next_annual_pm_var = next_annual\<rparr>"

section \<open>Properties of the calendar\<close>











section \<open>Properties of the Date Normalizer\<close>









section \<open>Properties of the Completion Transaction Processor\<close>

text \<open>
  What a transaction leaves: either it was rolled back, or the branch on the PM type
  succeeded, the commit went through and the database is the one the branch built.
\<close>

lemma run_transaction_cases:
  assumes "run_transaction ev c b t tech cd lh lm due se notes na = (out, c')"
  shows "((out = SubmitError OperationalError \<or> out = RolledBack) \<and> c' = db_rollback c)
       \<or> ((out = Verified \<or> out = VerificationFailed) \<and> pending c = None
            \<and> \<not> fail_begin (flt ev) \<and> \<not> fail_commit (flt ev)
            \<and> fst (process_branch (flt ev) (committed c) b t tech cd lh lm due se notes na)
            \<and> c' = \<lparr>committed = snd (process_branch (flt ev) (committed c) b t tech cd lh lm due se notes na), pending = None\<rparr>)"
  using assms
  by (auto simp: run_transaction_def Let_def db_rollback_def db_commit_def cur_def split: if_splits)

lemma submit_cases:
  assumes "submit_pm_completion ev fm c = (out, c')"
  shows "(out \<noteq> Verified \<and> out \<noteq> VerificationFailed \<and> (c' = c \<or> c' = db_rollback c))
       \<or> (\<exists>lh lm na. labor_hours_var fm = Some lh \<and> labor_minutes_var fm = Some lm
            \<and> (pm_type_var fm \<noteq> ''Annual'' \<longrightarrow> na = strip (next_annual_pm_var fm))
            \<and> (out = Verified \<or> out = VerificationFailed) \<and> pending c = None
            \<and> \<not> fail_begin (flt ev) \<and> \<not> fail_commit (flt ev)
            \<and> fst (process_branch (flt ev) (committed c) (strip (completion_bfm_var fm))
                  (pm_type_var fm) (completion_tech_var fm) (completion_date_of ev fm) lh lm
                  (strip (pm_due_date_var fm)) (special_equipment_var fm) (notes_text fm) na)
            \<and> c' = \<lparr>committed = snd (process_branch (flt ev) (committed c)
                  (strip (completion_bfm_var fm))
                  (pm_type_var fm) (completion_tech_var fm) (completion_date_of ev fm) lh lm
                  (strip (pm_due_date_var fm)) (special_equipment_var fm) (notes_text fm) na),
                  pending = None\<rparr>)"
proof (cases "completion_bfm_var fm = [] \<or> pm_type_var fm = [] \<or> completion_tech_var fm = []")
  case True
  with assms show ?thesis by (auto simp: submit_pm_completion_def)
next
  case nonempty: False
  show ?thesis
  proof (cases "labor_hours_var fm")
    case None
    with assms nonempty show ?thesis by (auto simp: submit_pm_completion_def Let_def)
  next
    case lh: (Some lh)
    show ?thesis
    proof (cases "labor_minutes_var fm")
      case None
      with assms nonempty lh show ?thesis by (auto simp: submit_pm_completion_def Let_def)
    next
      case lm: (Some lm)
      let ?v = "validate_pm_completion (cur c) (strip (completion_bfm_var fm)) (pm_type_var fm)
                  (completion_tech_var fm) (completion_date_of ev fm)"
      show ?thesis
      proof (cases "\<not> valid ?v \<and> \<not> proceed ev")
        case True
        with assms nonempty lh lm show ?thesis by (auto simp: submit_pm_completion_def Let_def)
      next
        case go: False
        let ?na1 = "(if strip (next_annual_pm_var fm) = [] \<and> pm_type_var fm = ''Annual''
                            then auto_next_annual ev (strip (completion_bfm_var fm))
                                   (case strptime_ymd (completion_date_of ev fm) of
                                      Inr dt \<Rightarrow> dt | Inl _ \<Rightarrow> today ev)
                            else Inr (strip (next_annual_pm_var fm)))"
        show ?thesis
        proof (cases ?na1)
          case (Inl e)
          with assms nonempty lh lm go show ?thesis
            by (auto simp: submit_pm_completion_def Let_def)
        next
          case (Inr na)
          with assms nonempty lh lm go
          have rt: "run_transaction ev c (strip (completion_bfm_var fm)) (pm_type_var fm)
                 (completion_tech_var fm) (completion_date_of ev fm) lh lm
                 (strip (pm_due_date_var fm)) (special_equipment_var fm) (notes_text fm) na = (out, c')"
            by (auto simp: submit_pm_completion_def Let_def)
          from Inr have na: "pm_type_var fm \<noteq> ''Annual'' \<longrightarrow> na = strip (next_annual_pm_var fm)"
            by (auto split: if_splits)
          from run_transaction_cases [OF rt] show ?thesis
            using lh lm na by blast
        qed
      qed
    qed
  qed
qed

lemma equipment_complete_schedule:
  "equipment (complete_schedule b t tech ws cd h n d) = equipment d"
  by (simp add: complete_schedule_def)

lemma process_normal_equipment:
  "equipment (snd (process_normal_pm_completion f d b t tech cd lh lm due se nt na)) = equipment d
   \<or> equipment (snd (process_normal_pm_completion f d b t tech cd lh lm due se nt na))
       = equipment (update_equipment b (cycle_update t cd na) d)"
  by (simp add: process_normal_pm_completion_def Let_def update_equipment_def
      equipment_complete_schedule split: sum.splits)

lemma map_update_equipment:
  "(\<And>e. g (f e) = g e) \<Longrightarrow> map g (equipment (update_equipment b f d)) = map g (equipment d)"
  by (simp add: update_equipment_def)

lemma process_normal_field:
  assumes "\<And>e. g (cycle_update t cd na e) = g e"
  shows "map g (equipment (snd (process_normal_pm_completion f d b t tech cd lh lm due se nt na)))
         = map g (equipment d)"
  using process_normal_equipment [of f d b t tech cd lh lm due se nt na]
    map_update_equipment [of g "cycle_update t cd na" b d] assms
  by auto

lemma process_branch_cycle:
  "is_cycle t \<Longrightarrow> process_branch f d b t tech cd lh lm due se nt na
     = process_normal_pm_completion f d b t tech cd lh lm due se nt na"
  by (auto simp: process_branch_def is_cycle_def)

text \<open>
  Over a whole submission, a column of the equipment table that the \<open>SET\<close> clause of
  the PM type does not write is the same in the committed database before and after.
\<close>

lemma submit_field:
  assumes sub: "submit_pm_completion ev fm c = (out, c')"
    and cyc: "is_cycle (pm_type_var fm)"
    and fr: "\<And>na e. (pm_type_var fm \<noteq> ''Annual'' \<longrightarrow> na = strip (next_annual_pm_var fm)) \<Longrightarrow>
                g (cycle_update (pm_type_var fm) (completion_date_of ev fm) na e) = g e"
  shows "map g (equipment (committed c')) = map g (equipment (committed c))"
proof -
  from submit_cases [OF sub] consider
      (same) "c' = c \<or> c' = db_rollback c"
    | (applied) lh lm na where "pm_type_var fm \<noteq> ''Annual'' \<longrightarrow> na = strip (next_annual_pm_var fm)"
        "c' = \<lparr>committed = snd (process_branch (flt ev) (committed c)
                  (strip (completion_bfm_var fm))
                  (pm_type_var fm) (completion_tech_var fm) (completion_date_of ev fm) lh lm
                  (strip (pm_due_date_var fm)) (special_equipment_var fm) (notes_text fm) na),
                  pending = None\<rparr>"
    by blast
  then show ?thesis
  proof cases
    case same
    then show ?thesis by (auto simp: db_rollback_def)
  next
    case applied
    from fr [OF applied(1)]
    have "\<And>e. g (cycle_update (pm_type_var fm) (completion_date_of ev fm) na e) = g e" .
    then show ?thesis
      unfolding applied(2) by (simp add: process_branch_cycle [OF cyc] process_normal_field)
  qed
qed

text \<open>
  Claim C2, as the code has it. A Six Month completion leaves \<open>last_annual_pm\<close> and
  \<open>next_annual_pm\<close> of every equipment row as they were; a Monthly completion leaves
  \<open>last_annual_pm\<close> as it was, and \<open>next_annual_pm\<close> too when the form's "Next Annual
  PM Date" field is blank; an Annual completion leaves the four monthly and six-month
  date columns as they were.
\<close>

theorem cycle_dates_independent:
  assumes "submit_pm_completion ev fm c = (out, c')"
  shows "(pm_type_var fm = ''Six Month'' \<or> pm_type_var fm = ''Monthly'' \<longrightarrow>
            map last_annual_pm (equipment (committed c')) = map last_annual_pm (equipment (committed c)))
       \<and> (pm_type_var fm = ''Six Month''
            \<or> (pm_type_var fm = ''Monthly'' \<and> strip (next_annual_pm_var fm) = []) \<longrightarrow>
            map next_annual_pm (equipment (committed c')) = map next_annual_pm (equipment (committed c)))
       \<and> (pm_type_var fm = ''Annual'' \<longrightarrow>
            map last_monthly_pm (equipment (committed c')) = map last_monthly_pm (equipment (committed c))
            \<and> map next_monthly_pm (equipment (committed c')) = map next_monthly_pm (equipment (committed c))
            \<and> map last_six_month_pm (equipment (committed c')) = map last_six_month_pm (equipment (committed c))
            \<and> map next_six_month_pm (equipment (committed c')) = map next_six_month_pm (equipment (committed c)))"
proof (intro conjI impI)
  assume t: "pm_type_var fm = ''Six Month'' \<or> pm_type_var fm = ''Monthly''"
  then have cyc: "is_cycle (pm_type_var fm)" by (auto simp: is_cycle_def)
  show "map last_annual_pm (equipment (committed c')) = map last_annual_pm (equipment (committed c))"
    using t by (intro submit_field [OF assms cyc]) (auto simp: cycle_update_def)
next
  assume t: "pm_type_var fm = ''Six Month''
     \<or> (pm_type_var fm = ''Monthly'' \<and> strip (next_annual_pm_var fm) = [])"
  then have cyc: "is_cycle (pm_type_var fm)" by (auto simp: is_cycle_def)
  show "map next_annual_pm (equipment (committed c')) = map next_annual_pm (equipment (committed c))"
    using t by (intro submit_field [OF assms cyc]) (auto simp: cycle_update_def)
next
  assume t: "pm_type_var fm = ''Annual''"
  then have cyc: "is_cycle (pm_type_var fm)" by (auto simp: is_cycle_def)
  show "map last_monthly_pm (equipment (committed c')) = map last_monthly_pm (equipment (committed c))"
    using t by (intro submit_field [OF assms cyc]) (auto simp: cycle_update_def)
  show "map next_monthly_pm (equipment (committed c')) = map next_monthly_pm (equipment (committed c))"
    using t by (intro submit_field [OF assms cyc]) (auto simp: cycle_update_def)
  show "map last_six_month_pm (equipment (committed c')) = map last_six_month_pm (equipment (committed c))"
    using t by (intro submit_field [OF assms cyc]) (auto simp: cycle_update_def)
  show "map next_six_month_pm (equipment (committed c')) = map next_six_month_pm (equipment (committed c))"
    using t by (intro submit_field [OF assms cyc]) (auto simp: cycle_update_def)
qed

theorem cycle_dates_independent_witness:
  "map last_annual_pm (equipment (committed (snd
       (submit_pm_completion example_env (example_form ''E-0100'' ''Monthly'' []) example_conn))))
     = map last_annual_pm (equipment (committed example_conn))
   \<and> map next_annual_pm (equipment (committed (snd
       (submit_pm_completion example_env (example_form ''E-0100'' ''Monthly'' []) example_conn))))
     = map next_annual_pm (equipment (committed example_conn))"
  using cycle_dates_independent [of example_env "example_form ''E-0100'' ''Monthly'' []" example_conn
      "fst (submit_pm_completion example_env (example_form ''E-0100'' ''Monthly'' []) example_conn)"
      "snd (submit_pm_completion example_env (example_form ''E-0100'' ''Monthly'' []) example_conn)"]
  by (simp add: example_form_def strip_def)

text \<open>
  The claim as stated fails: a Monthly completion submitted with the form's "Next
  Annual PM Date" field filled in writes that text to \<open>next_annual_pm\<close>.
\<close>

theorem monthly_changes_next_annual_counterexample:
  "fst (submit_pm_completion example_env (example_form ''E-0100'' ''Monthly'' ''2026-01-01'') example_conn)
     = Verified
   \<and> map next_annual_pm (equipment (committed example_conn)) = [Some ''2025-06-01'']
   \<and> map next_annual_pm (equipment (committed (snd
        (submit_pm_completion example_env (example_form ''E-0100'' ''Monthly'' ''2026-01-01'') example_conn))))
       = [Some ''2026-01-01'']"
  by code_simp

text \<open>An equipment number with no row: the branch on the PM type fails.\<close>

lemma rowcount_insert_other:
  "equipment_rowcount b (d\<lparr>pm_completions := x\<rparr>) = equipment_rowcount b d"
  "equipment_rowcount b (d\<lparr>cannot_find_assets := y\<rparr>) = equipment_rowcount b d"
  "equipment_rowcount b (d\<lparr>run_to_failure_assets := z\<rparr>) = equipment_rowcount b d"
  by (simp_all add: equipment_rowcount_def)











text \<open>
  Outside the five PM types of the form the affected-rows check reads the row count of
  the \<open>INSERT\<close>: a completion for an unknown equipment is then committed.
\<close>

lemma unknown_equipment_other_type_commits:
  "map pc_bfm_equipment_no (pm_completions (committed (snd
      (submit_pm_completion example_env (example_form ''E-9999'' ''Weekly'' []) example_conn))))
     = [''E-9999'']"
  by code_simp

text \<open>What a successful \<open>process_normal_pm_completion\<close> of a cycle has done.\<close>

lemma cycle_update_bfm:
  "bfm_equipment_no (cycle_update t cd na e) = bfm_equipment_no e"
  by (simp add: cycle_update_def)

lemma cycle_update_last:
  "is_cycle t \<Longrightarrow> last_pm_date_of t (cycle_update t cd na e) = Some cd"
  by (auto simp: cycle_update_def last_pm_date_of_def is_cycle_def)

lemma process_normal_success:
  assumes "fst (process_normal_pm_completion f d b t tech cd lh lm due se nt na)"
    and "is_cycle t"
  shows "\<not> fail_insert f \<and> \<not> fail_update_equipment f \<and> \<not> fail_update_schedule f
       \<and> equipment_rowcount b d = 1
       \<and> (\<exists>ws. snd (process_normal_pm_completion f d b t tech cd lh lm due se nt na) =
             complete_schedule b t tech ws cd (float_add lh (float_div_60 lm)) nt
               (update_equipment b (cycle_update t cd na)
                  (d\<lparr>pm_completions := pm_completions d @
                     [\<lparr>pc_bfm_equipment_no = b, pc_pm_type = t,
                       pc_technician_name = tech, pc_completion_date = cd,
                       pc_labor_hours = lh, pc_labor_minutes = lm,
                       pc_pm_due_date = due, pc_special_equipment = se,
                       pc_notes = nt, pc_next_annual_pm_date = na\<rparr>]\<rparr>)))"
  using assms
  by (auto simp: process_normal_pm_completion_def Let_def rowcount_insert_other
      split: if_splits sum.splits)

lemma updated_rows_have_date:
  assumes cyc: "is_cycle t"
    and mem: "e \<in> set (equipment (update_equipment b (cycle_update t cd na) d))"
    and bfm: "bfm_equipment_no e = b"
  shows "last_pm_date_of t e = Some cd"
proof -
  from mem have "e \<in> (\<lambda>x. if bfm_equipment_no x = b then cycle_update t cd na x else x)
                    ` set (equipment d)"
    by (simp add: update_equipment_def)
  then obtain x where
    e: "e = (if bfm_equipment_no x = b then cycle_update t cd na x else x)"
    by (rule imageE)
  show ?thesis
  proof (cases "bfm_equipment_no x = b")
    case True
    with e have "e = cycle_update t cd na x" by simp
    then show ?thesis using cyc by (simp add: cycle_update_last)
  next
    case False
    with e have "bfm_equipment_no e \<noteq> b" by simp
    with bfm show ?thesis by simp
  qed
qed

lemma rowcount_update_equipment:
  assumes "\<And>e. bfm_equipment_no (g e) = bfm_equipment_no e"
  shows "equipment_rowcount b (update_equipment b' g d) = equipment_rowcount b d"
proof -
  have "filter (\<lambda>e. bfm_equipment_no e = b)
          (map (\<lambda>e. if bfm_equipment_no e = b' then g e else e) xs)
        = map (\<lambda>e. if bfm_equipment_no e = b' then g e else e)
            (filter (\<lambda>e. bfm_equipment_no e = b) xs)" for xs
    by (induction xs) (simp_all add: assms)
  then show ?thesis
    by (simp add: equipment_rowcount_def update_equipment_def)
qed

lemma process_branch_no_fault:
  assumes "fst (process_branch f d b t tech cd lh lm due se nt na)"
  shows "\<not> fail_insert f
       \<and> (is_cycle t \<or> t = ''CANNOT FIND'' \<or> t = ''Run to Failure'' \<longrightarrow> \<not> fail_update_equipment f)
       \<and> (t \<noteq> ''CANNOT FIND'' \<and> t \<noteq> ''Run to Failure'' \<longrightarrow> \<not> fail_update_schedule f)"
proof (cases "t = ''CANNOT FIND''")
  case True
  with assms show ?thesis
    by (auto simp: process_branch_def process_cannot_find_pm_def Let_def split: if_splits)
next
  case ncf: False
  show ?thesis
  proof (cases "t = ''Run to Failure''")
    case True
    with assms ncf show ?thesis
      by (auto simp: process_branch_def process_run_to_failure_pm_def Let_def split: if_splits)
  next
    case False
    with assms ncf
    have "fst (process_normal_pm_completion f d b t tech cd lh lm due se nt na)"
      by (simp add: process_branch_def)
    then show ?thesis using ncf False
      by (auto simp: process_normal_pm_completion_def Let_def split: if_splits sum.splits)
  qed
qed

lemma pm_completions_after_cycle:
  "pm_completions (complete_schedule b t tech ws cd h nt (update_equipment b' g d)) = pm_completions d"
  by (simp add: complete_schedule_def update_equipment_def)

text \<open>
  How far the submission is atomic on the committed database. Whatever statement
  fails (the \<open>BEGIN\<close>, the insert, the equipment update, the schedule update or the
  \<open>COMMIT\<close>), and on every outcome that is not a success, the committed database is
  the one before the call and no transaction is left open by the call. For one of the
  three cycles, a new completion record is in the committed database only together
  with the equipment update: exactly one equipment row has the number, and its
  last-PM date of the cycle is the completion date.
\<close>

theorem submission_is_atomic:
  assumes sub: "submit_pm_completion ev fm c = (out, c')"
  shows "(out \<noteq> Verified \<and> out \<noteq> VerificationFailed \<longrightarrow>
            committed c' = committed c \<and> (c' = c \<or> pending c' = None))
       \<and> (fail_begin (flt ev) \<or> fail_commit (flt ev) \<or> fail_insert (flt ev)
            \<or> (fail_update_equipment (flt ev)
                \<and> (is_cycle (pm_type_var fm) \<or> pm_type_var fm = ''CANNOT FIND''
                    \<or> pm_type_var fm = ''Run to Failure''))
            \<or> (fail_update_schedule (flt ev)
                \<and> pm_type_var fm \<noteq> ''CANNOT FIND'' \<and> pm_type_var fm \<noteq> ''Run to Failure'') \<longrightarrow>
            committed c' = committed c \<and> out \<noteq> Verified \<and> out \<noteq> VerificationFailed)
       \<and> (is_cycle (pm_type_var fm)
            \<and> pm_completions (committed c') \<noteq> pm_completions (committed c) \<longrightarrow>
            (out = Verified \<or> out = VerificationFailed) \<and> pending c' = None
            \<and> (\<exists>row. pm_completions (committed c') = pm_completions (committed c) @ [row]
                  \<and> pc_bfm_equipment_no row = strip (completion_bfm_var fm)
                  \<and> pc_pm_type row = pm_type_var fm
                  \<and> pc_completion_date row = completion_date_of ev fm)
            \<and> equipment_rowcount (strip (completion_bfm_var fm)) (committed c') = 1
            \<and> (\<forall>e \<in> set (equipment (committed c')).
                  bfm_equipment_no e = strip (completion_bfm_var fm) \<longrightarrow>
                  last_pm_date_of (pm_type_var fm) e = Some (completion_date_of ev fm)))"
proof -
  let ?b = "strip (completion_bfm_var fm)" and ?t = "pm_type_var fm"
  let ?cd = "completion_date_of ev fm"
  from submit_cases [OF sub] consider
      (same) "out \<noteq> Verified" "out \<noteq> VerificationFailed" "c' = c \<or> c' = db_rollback c"
    | (applied) lh lm na where "out = Verified \<or> out = VerificationFailed"
        "\<not> fail_begin (flt ev)" "\<not> fail_commit (flt ev)"
        "fst (process_branch (flt ev) (committed c) ?b ?t (completion_tech_var fm) ?cd lh lm
                  (strip (pm_due_date_var fm)) (special_equipment_var fm) (notes_text fm) na)"
        "c' = \<lparr>committed = snd (process_branch (flt ev) (committed c) ?b ?t
                  (completion_tech_var fm) ?cd lh lm
                  (strip (pm_due_date_var fm)) (special_equipment_var fm) (notes_text fm) na),
                  pending = None\<rparr>"
    by blast
  then show ?thesis
  proof cases
    case same
    from same(3) have "committed c' = committed c \<and> (c' = c \<or> pending c' = None)"
      by (auto simp: db_rollback_def)
    with same show ?thesis by simp
  next
    case applied
    note nf = process_branch_no_fault [OF applied(4)]
    have third: "(\<exists>row. pm_completions (committed c') = pm_completions (committed c) @ [row]
                  \<and> pc_bfm_equipment_no row = ?b \<and> pc_pm_type row = ?t
                  \<and> pc_completion_date row = ?cd)
            \<and> equipment_rowcount ?b (committed c') = 1
            \<and> (\<forall>e \<in> set (equipment (committed c')).
                  bfm_equipment_no e = ?b \<longrightarrow> last_pm_date_of ?t e = Some ?cd)"
      if cyc: "is_cycle ?t"
    proof -
      from applied(4) cyc
      have ok: "fst (process_normal_pm_completion (flt ev) (committed c) ?b ?t
                  (completion_tech_var fm) ?cd lh lm
                  (strip (pm_due_date_var fm)) (special_equipment_var fm) (notes_text fm) na)"
        by (simp add: process_branch_cycle)
      from process_normal_success [OF ok cyc] obtain ws where
        rc: "equipment_rowcount ?b (committed c) = 1" and
        d': "snd (process_normal_pm_completion (flt ev) (committed c) ?b ?t
                  (completion_tech_var fm) ?cd lh lm
                  (strip (pm_due_date_var fm)) (special_equipment_var fm) (notes_text fm) na) =
             complete_schedule ?b ?t (completion_tech_var fm) ws ?cd (float_add lh (float_div_60 lm)) (notes_text fm)
               (update_equipment ?b (cycle_update ?t ?cd na)
                  ((committed c)\<lparr>pm_completions := pm_completions (committed c) @
                     [\<lparr>pc_bfm_equipment_no = ?b, pc_pm_type = ?t,
                       pc_technician_name = completion_tech_var fm, pc_completion_date = ?cd,
                       pc_labor_hours = lh, pc_labor_minutes = lm,
                       pc_pm_due_date = strip (pm_due_date_var fm),
                       pc_special_equipment = special_equipment_var fm,
                       pc_notes = notes_text fm, pc_next_annual_pm_date = na\<rparr>]\<rparr>))"
        by blast
      from applied(5) cyc d'
      have cc: "committed c' =
             complete_schedule ?b ?t (completion_tech_var fm) ws ?cd (float_add lh (float_div_60 lm)) (notes_text fm)
               (update_equipment ?b (cycle_update ?t ?cd na)
                  ((committed c)\<lparr>pm_completions := pm_completions (committed c) @
                     [\<lparr>pc_bfm_equipment_no = ?b, pc_pm_type = ?t,
                       pc_technician_name = completion_tech_var fm, pc_completion_date = ?cd,
                       pc_labor_hours = lh, pc_labor_minutes = lm,
                       pc_pm_due_date = strip (pm_due_date_var fm),
                       pc_special_equipment = special_equipment_var fm,
                       pc_notes = notes_text fm, pc_next_annual_pm_date = na\<rparr>]\<rparr>))"
        by (simp add: process_branch_cycle)
      have p1: "\<exists>row. pm_completions (committed c') = pm_completions (committed c) @ [row]
                  \<and> pc_bfm_equipment_no row = ?b \<and> pc_pm_type row = ?t
                  \<and> pc_completion_date row = ?cd"
        unfolding cc by (simp add: pm_completions_after_cycle)
      have p2: "equipment_rowcount ?b (committed c') = 1"
        unfolding cc
        by (simp add: equipment_rowcount_def [of _ "complete_schedule _ _ _ _ _ _ _ _"]
            equipment_complete_schedule
            rowcount_update_equipment [unfolded equipment_rowcount_def, OF cycle_update_bfm]
            rowcount_insert_other [unfolded equipment_rowcount_def]
            rc [unfolded equipment_rowcount_def])
      have p3: "\<forall>e \<in> set (equipment (committed c')).
                  bfm_equipment_no e = ?b \<longrightarrow> last_pm_date_of ?t e = Some ?cd"
        unfolding cc
        by (auto simp: equipment_complete_schedule intro: updated_rows_have_date [OF cyc])
      from p1 p2 p3 show ?thesis by blast
    qed
    from applied(5) have pn: "pending c' = None" by simp
    from applied(1,2,3) nf third pn show ?thesis by blast
  qed
qed

theorem submission_is_atomic_witness:
  "fst (submit_pm_completion (example_env\<lparr>flt := no_faults\<lparr>fail_commit := True\<rparr>\<rparr>)
          (example_form ''E-0100'' ''Monthly'' []) example_conn) = SubmitError OperationalError
   \<and> committed (snd (submit_pm_completion (example_env\<lparr>flt := no_faults\<lparr>fail_commit := True\<rparr>\<rparr>)
          (example_form ''E-0100'' ''Monthly'' []) example_conn)) = committed example_conn
   \<and> pm_completions (committed (snd (submit_pm_completion example_env
          (example_form ''E-0100'' ''Monthly'' []) example_conn)))
       \<noteq> pm_completions (committed example_conn)
   \<and> equipment_rowcount ''E-0100'' (committed (snd (submit_pm_completion example_env
          (example_form ''E-0100'' ''Monthly'' []) example_conn))) = 1
   \<and> map last_monthly_pm (equipment (committed (snd (submit_pm_completion example_env
          (example_form ''E-0100'' ''Monthly'' []) example_conn)))) = [Some ''2025-02-01'']"
proof -
  let ?ev = "example_env\<lparr>flt := no_faults\<lparr>fail_commit := True\<rparr>\<rparr>"
  let ?fm = "example_form ''E-0100'' ''Monthly'' []"
  have out: "fst (submit_pm_completion ?ev ?fm example_conn) = SubmitError OperationalError"
    by code_simp
  have "fail_commit (flt ?ev)" by simp
  with submission_is_atomic [OF surjective_pairing, of ?ev ?fm example_conn]
  have same: "committed (snd (submit_pm_completion ?ev ?fm example_conn)) = committed example_conn"
    by blast
  have chg: "pm_completions (committed (snd (submit_pm_completion example_env ?fm example_conn)))
       \<noteq> pm_completions (committed example_conn)"
    by code_simp
  have cyc: "is_cycle (pm_type_var ?fm)" by (simp add: example_form_def is_cycle_def)
  have b: "strip (completion_bfm_var ?fm) = ''E-0100''" by code_simp
  from submission_is_atomic [OF surjective_pairing, of example_env ?fm example_conn] cyc chg
  have "equipment_rowcount (strip (completion_bfm_var ?fm))
          (committed (snd (submit_pm_completion example_env ?fm example_conn))) = 1"
    by blast
  then have rc: "equipment_rowcount ''E-0100''
          (committed (snd (submit_pm_completion example_env ?fm example_conn))) = 1"
    unfolding b .
  have upd: "map last_monthly_pm (equipment (committed (snd (submit_pm_completion example_env
          ?fm example_conn)))) = [Some ''2025-02-01'']"
    by code_simp
  from out same chg rc upd show ?thesis by (intro conjI)
qed

text \<open>
  Claim C3 fails on the code for a PM type that is none of the five: the text of the
  PM type box can be edited, and "Monthly" followed by a space is such a type. The
  completion of the example equipment is then valid for the validator, no
  \<open>UPDATE equipment\<close> is executed, the affected-rows check reads the row count of the
  \<open>INSERT\<close>, and the transaction is committed and reported as verified: the store
  holds the completion record and the equipment row is what it was.
\<close>

theorem other_pm_type_commits_without_equipment_update:
  "valid (validate_pm_completion example_db ''E-0100'' ''Monthly '' ''Mark Michaels'' ''2025-02-01'')
   \<and> fst (submit_pm_completion example_env (example_form ''E-0100'' ''Monthly '' []) example_conn)
       = Verified
   \<and> map (\<lambda>r. (pc_bfm_equipment_no r, pc_pm_type r, pc_completion_date r))
         (pm_completions (committed (snd (submit_pm_completion example_env
            (example_form ''E-0100'' ''Monthly '' []) example_conn))))
       = [(''E-0100'', ''Monthly '', ''2025-02-01'')]
   \<and> equipment (committed (snd (submit_pm_completion example_env
         (example_form ''E-0100'' ''Monthly '' []) example_conn))) = [example_equipment]
   \<and> last_monthly_pm example_equipment = Some ''2025-01-01''"
  by code_simp

section \<open>Properties of the Weekly Assignment Generator\<close>






lemma active_equipment_cong:
  "equipment d1 = equipment d2 \<Longrightarrow> active_equipment d1 = active_equipment d2"
  by (simp add: active_equipment_def)

lemma select_assignments_source:
  assumes "(b, t, desc) \<in> set (select_assignments now es A)"
  shows "b \<notin> A \<and> (\<exists>e \<in> set es. bfm_equipment_no e = b \<and> assigned_pm now e = Some t
                       \<and> description e = desc)"
  using assms
proof (induction es arbitrary: A)
  case Nil
  then show ?case by simp
next
  case (Cons e es)
  show ?case
  proof (cases "bfm_equipment_no e \<in> A")
    case True
    with Cons.prems have "(b, t, desc) \<in> set (select_assignments now es A)" by simp
    from Cons.IH [OF this] show ?thesis by auto
  next
    case notin: False
    show ?thesis
    proof (cases "assigned_pm now e")
      case None
      with Cons.prems notin have "(b, t, desc) \<in> set (select_assignments now es A)" by simp
      from Cons.IH [OF this] show ?thesis by auto
    next
      case (Some pm)
      with Cons.prems notin
      have "(b, t, desc) = (bfm_equipment_no e, pm, description e)
            \<or> (b, t, desc) \<in> set (select_assignments now es (insert (bfm_equipment_no e) A))"
        by simp
      then show ?thesis
      proof
        assume "(b, t, desc) = (bfm_equipment_no e, pm, description e)"
        with notin Some show ?thesis by auto
      next
        assume "(b, t, desc) \<in> set (select_assignments now es (insert (bfm_equipment_no e) A))"
        from Cons.IH [OF this] show ?thesis by auto
      qed
    qed
  qed
qed

lemma select_assignments_distinct:
  "distinct (map fst (select_assignments now es A))"
proof (induction es arbitrary: A)
  case Nil
  show ?case by simp
next
  case (Cons e es)
  have "bfm_equipment_no e \<notin> fst ` set (select_assignments now es (insert (bfm_equipment_no e) A))"
  proof
    assume "bfm_equipment_no e \<in> fst ` set (select_assignments now es (insert (bfm_equipment_no e) A))"
    then obtain t desc where
      "(bfm_equipment_no e, t, desc) \<in> set (select_assignments now es (insert (bfm_equipment_no e) A))"
      by force
    from select_assignments_source [OF this] show False by simp
  qed
  with Cons.IH show ?case by (simp split: option.splits)
qed













end
